theory Spec2Isabelle
  imports Complex_Main "HOL-Library.Word"
begin

unbundle bit_operations_syntax

section \<open>JavaScript values\<close>

text \<open>
  JavaScript numbers are modelled by the reals: every arithmetic operation of the
  source is read in exact arithmetic, and rounding of IEEE doubles is not represented.
  The two non-numeric results the source can produce are kept apart from the numbers:
  \<open>NaN\<close> (from \<open>0 / 0\<close>) and \<open>undefined\<close> (from an array or property read that
  finds nothing).
\<close>

datatype jsval = Number real | NaN | Undefined

text \<open>\<open>xs[i]\<close>: an index outside the array reads \<open>undefined\<close>.\<close>

definition js_index :: "real list \<Rightarrow> int \<Rightarrow> jsval" where
  "js_index xs i = (if 0 \<le> i \<and> i < int (length xs) then Number (xs ! nat i) else Undefined)"

text \<open>\<open>a / n\<close> for a sum \<open>a\<close> of an array of length \<open>n\<close>; \<open>0 / 0\<close> is \<open>NaN\<close>.\<close>

definition js_div_length :: "real \<Rightarrow> nat \<Rightarrow> jsval" where
  "js_div_length a n = (if n = 0 then NaN else Number (a / real n))"

text \<open>\<open>Math.floor\<close> of a number, as an array index.\<close>

definition Math_floor :: "real \<Rightarrow> int" where
  "Math_floor x = \<lfloor>x\<rfloor>"

text \<open>\<open>Math.round\<close> rounds half up.\<close>

definition Math_round :: "real \<Rightarrow> int" where
  "Math_round x = \<lfloor>x + 1 / 2\<rfloor>"

section \<open>simulation.js: the Monte Carlo engine\<close>

subsection \<open>The source of randomness\<close>

text \<open>
  \<open>Math.random()\<close> is the only source of randomness of the engine. Its hidden state
  is made explicit: \<open>source\<close> is the sequence of numbers it is going to return and
  \<open>drawn\<close> counts the calls made so far.
\<close>

record rng_state =
  source :: "nat \<Rightarrow> real"
  drawn :: nat

definition Math_random :: "rng_state \<Rightarrow> real \<times> rng_state" where
  "Math_random rng = (source rng (drawn rng), rng\<lparr>drawn := drawn rng + 1\<rparr>)"

text \<open>
  Box-Muller transform; two draws per sample. \<open>Math.random\<close> returns numbers in
  \<open>[0, 1)\<close>. For a first draw of exactly 0, \<open>Math.log\<close> gives \<open>-Infinity\<close> and the
  sample is infinite; the reals have no such value (\<open>ln 0\<close> is 0 in HOL), so the
  model follows the source for draws \<open>u1 > 0\<close> only.
\<close>

definition sampleNormal :: "real \<Rightarrow> real \<Rightarrow> rng_state \<Rightarrow> real \<times> rng_state" where
  "sampleNormal mean_v stdDev rng =
     (let (u1, rng1) = Math_random rng;
          (u2, rng2) = Math_random rng1;
          z = sqrt (- 2 * ln u1) * cos (2 * pi * u2)
      in (mean_v + z * stdDev, rng2))"

definition clampPositive :: "real \<Rightarrow> real" where
  "clampPositive val = max 0 val"

subsection \<open>The contributor table\<close>

record contributor =
  name :: string
  meanPerDeg :: real
  stdPerDeg :: real
  nonLinearExponent :: real

text \<open>An object literal keeps its keys in insertion order: an association list.\<close>

definition CONTRIBUTORS :: "(string \<times> contributor) list" where
  "CONTRIBUTORS =
    [(''thermalExpansion'',
        \<lparr>name = ''Thermal Expansion'', meanPerDeg = 0.12, stdPerDeg = 0.04,
         nonLinearExponent = 1.0\<rparr>),
     (''glaciers'',
        \<lparr>name = ''Mountain Glaciers'', meanPerDeg = 0.10, stdPerDeg = 0.03,
         nonLinearExponent = 0.9\<rparr>),
     (''greenland'',
        \<lparr>name = ''Greenland Ice Sheet'', meanPerDeg = 0.06, stdPerDeg = 0.04,
         nonLinearExponent = 1.4\<rparr>),
     (''antarctic'',
        \<lparr>name = ''Antarctic Ice Sheet'', meanPerDeg = 0.05, stdPerDeg = 0.08,
         nonLinearExponent = 1.8\<rparr>),
     (''landWater'',
        \<lparr>name = ''Land Water Storage'', meanPerDeg = 0.01, stdPerDeg = 0.01,
         nonLinearExponent = 1.0\<rparr>)]"

subsection \<open>One iteration\<close>

text \<open>
  The body of the \<open>for ... of Object.entries(CONTRIBUTORS)\<close> loop, and the loop itself
  as a recursion over the entries. The loop state is the breakdown built so far, the
  running total and the state of \<open>Math.random\<close>. \<open>Math.pow\<close> is only reached with a
  positive base (the caller returns early otherwise), where it is \<open>powr\<close>.
\<close>

type_synonym breakdown = "(string \<times> real) list"

fun singleIteration_loop ::
  "real \<Rightarrow> (string \<times> contributor) list \<Rightarrow> breakdown \<times> real \<times> rng_state
     \<Rightarrow> breakdown \<times> real \<times> rng_state" where
  "singleIteration_loop tempIncrease [] st = st"
| "singleIteration_loop tempIncrease ((key, c) # rest) (bd, total_v, rng) =
     (let scaledTemp = tempIncrease powr nonLinearExponent c;
          mean_v = meanPerDeg c * scaledTemp;
          std = stdPerDeg c * sqrt tempIncrease;
          (sample, rng') = sampleNormal mean_v std rng;
          val = clampPositive sample
      in singleIteration_loop tempIncrease rest (bd @ [(key, val)], total_v + val, rng'))"

text \<open>Returns \<open>{ total, breakdown }\<close> and the new state of \<open>Math.random\<close>.\<close>

definition singleIteration :: "real \<Rightarrow> rng_state \<Rightarrow> (real \<times> breakdown) \<times> rng_state" where
  "singleIteration tempIncrease rng =
     (case singleIteration_loop tempIncrease CONTRIBUTORS ([], 0, rng) of
        (bd, total_v, rng') \<Rightarrow> ((total_v, bd), rng'))"

subsection \<open>Statistics of a sorted array\<close>

record stat_summary =
  mean :: jsval
  median :: jsval
  p5 :: jsval
  p95 :: jsval
  min_stat :: jsval
  max_stat :: jsval

record contributor_stat = stat_summary +
  cname :: string

definition computeStats :: "real list \<Rightarrow> stat_summary" where
  "computeStats sorted_xs =
     (let n = length sorted_xs;
          sum_v = foldl (+) 0 sorted_xs
      in \<lparr>mean = js_div_length sum_v n,
          median = js_index sorted_xs (Math_floor (real n * 0.5)),
          p5 = js_index sorted_xs (Math_floor (real n * 0.05)),
          p95 = js_index sorted_xs (Math_floor (real n * 0.95)),
          min_stat = js_index sorted_xs 0,
          max_stat = js_index sorted_xs (int n - 1)\<rparr>)"

subsection \<open>The simulation\<close>

record sim_result =
  tempIncrease :: real
  iterations :: int
  results :: "real list"
  stats :: stat_summary
  contributorStats :: "(string \<times> contributor_stat) list"

type_synonym contributor_totals = "(string \<times> real list) list"

text \<open>\<open>contributorTotals[key].push(value)\<close> for every entry of a breakdown.\<close>

definition push_value :: "string \<Rightarrow> real \<Rightarrow> contributor_totals \<Rightarrow> contributor_totals" where
  "push_value key v ct = map (\<lambda>(k, vs). if k = key then (k, vs @ [v]) else (k, vs)) ct"

fun push_breakdown :: "breakdown \<Rightarrow> contributor_totals \<Rightarrow> contributor_totals" where
  "push_breakdown [] ct = ct"
| "push_breakdown ((key, v) # rest) ct = push_breakdown rest (push_value key v ct)"

text \<open>
  The main loop \<open>for (let i = 0; i < iterations; i++)\<close>, by the number of rounds that
  remain.
\<close>

fun simulation_loop ::
  "real \<Rightarrow> nat \<Rightarrow> real list \<times> contributor_totals \<times> rng_state
     \<Rightarrow> real list \<times> contributor_totals \<times> rng_state" where
  "simulation_loop t 0 st = st"
| "simulation_loop t (Suc k) (res, ct, rng) =
     (case singleIteration t rng of
        ((total_v, bd), rng') \<Rightarrow> simulation_loop t k (res @ [total_v], push_breakdown bd ct, rng'))"

definition contributor_name :: "string \<Rightarrow> string" where
  "contributor_name key = (case map_of CONTRIBUTORS key of Some c \<Rightarrow> name c | None \<Rightarrow> [])"

definition contributor_entry :: "string \<times> real list \<Rightarrow> string \<times> contributor_stat" where
  "contributor_entry kv =
     (case kv of (key, vals) \<Rightarrow>
        (key, stat_summary.extend (computeStats (sort vals)) \<lparr>cname = contributor_name key\<rparr>))"

definition zero_stats :: stat_summary where
  "zero_stats = \<lparr>mean = Number 0, median = Number 0, p5 = Number 0, p95 = Number 0,
                 min_stat = Number 0, max_stat = Number 0\<rparr>"

text \<open>
  \<open>runSimulation(tempIncrease, iterations)\<close>. The function declares two parameters
  and reads \<open>Math.random\<close>; it returns the result object, and the model also returns the
  state in which it leaves \<open>Math.random\<close>. The iteration count is an integer; the
  loop \<open>i < iterations\<close> runs \<open>iterations\<close> times, and not at all for a count \<open>\<le> 0\<close>.
\<close>

definition runSimulation :: "real \<Rightarrow> int \<Rightarrow> rng_state \<Rightarrow> sim_result \<times> rng_state" where
  "runSimulation temp iters rng =
     (if temp \<le> 0 then
        (\<lparr>tempIncrease = 0, iterations = 0, results = [], stats = zero_stats,
          contributorStats = []\<rparr>, rng)
      else
        (case simulation_loop temp (nat iters)
                ([], map (\<lambda>key. (key, [])) (map fst CONTRIBUTORS), rng) of
           (res, ct, rng') \<Rightarrow>
             (\<lparr>tempIncrease = temp, iterations = iters, results = sort res,
               stats = computeStats (sort res),
               contributorStats = map contributor_entry ct\<rparr>, rng')))"

text \<open>
  The call as ui.js makes it,
  \<open>runSimulation(tempIncrease, MONTE_CARLO_ITERATIONS, { seed: buildSeedForTemp(tempIncrease) })\<close>:
  a third argument is passed, which the parameter list of \<open>runSimulation\<close> does not bind.
\<close>

record sim_options =
  seed :: "32 word"

definition runSimulation_call ::
  "real \<Rightarrow> int \<Rightarrow> sim_options \<Rightarrow> rng_state \<Rightarrow> sim_result \<times> rng_state" where
  "runSimulation_call temp iters opts rng = runSimulation temp iters rng"

section \<open>projections.js: the scenario resolver\<close>

text \<open>
  \<open>temperaturesByYear\<close> is an object whose keys are the decimal strings of years. A
  number used as a property key is converted to its canonical decimal string, and
  \<open>Number\<close> converts a key back, so a key is identified with the number it denotes:
  the object is an association list from numbers to numbers, and a year that is no key
  reads \<open>undefined\<close>.
\<close>

record scenario =
  scenario_id :: string
  label :: string
  description :: string
  temperaturesByYear :: "(real \<times> real) list"

definition SCENARIO_DATA :: "(string \<times> scenario) list" where
  "SCENARIO_DATA =
    [(''ssp126'',
        \<lparr>scenario_id = ''ssp126'', label = ''SSP1-2.6'',
         description = ''Strong mitigation, lower warming pathway'',
         temperaturesByYear = [(2030, 1.5), (2050, 1.8), (2100, 2.0)]\<rparr>),
     (''ssp245'',
        \<lparr>scenario_id = ''ssp245'', label = ''SSP2-4.5'',
         description = ''Intermediate emissions pathway'',
         temperaturesByYear = [(2030, 1.6), (2050, 2.2), (2100, 2.9)]\<rparr>),
     (''ssp585'',
        \<lparr>scenario_id = ''ssp585'', label = ''SSP5-8.5'',
         description = ''High emissions, high warming pathway'',
         temperaturesByYear = [(2030, 1.8), (2050, 2.7), (2100, 4.4)]\<rparr>)]"

text \<open>
  \<open>SCENARIO_DATA[id]\<close> is a property read on an object literal: besides the three own
  keys it finds the members the object inherits from \<open>Object.prototype\<close>, all of them
  truthy (functions, and the prototype object itself under \<open>__proto__\<close>).
\<close>

definition Object_prototype_keys :: "string list" where
  "Object_prototype_keys =
    [''constructor'', ''hasOwnProperty'', ''isPrototypeOf'', ''propertyIsEnumerable'',
     ''toLocaleString'', ''toString'', ''valueOf'', ''__proto__'', ''__defineGetter__'',
     ''__defineSetter__'', ''__lookupGetter__'', ''__lookupSetter__'']"

datatype scenario_lookup = Scenario scenario | Inherited_member | Null

text \<open>\<open>return SCENARIO_DATA[id] || null\<close>\<close>

definition getScenarioById :: "string \<Rightarrow> scenario_lookup" where
  "getScenarioById sid =
     (case map_of SCENARIO_DATA sid of
        Some s \<Rightarrow> Scenario s
      | None \<Rightarrow> if sid \<in> set Object_prototype_keys then Inherited_member else Null)"

text \<open>
  The two ways \<open>getProjectedTemp\<close> can throw: its own \<open>Error("Unknown scenario id: ...")\<close>,
  and the \<open>TypeError\<close> of \<open>Object.keys(undefined)\<close>.
\<close>

datatype error = UnknownScenario string | TypeError

definition year_prop :: "(real \<times> real) list \<Rightarrow> real \<Rightarrow> jsval" where
  "year_prop tby year = (case map_of tby year of Some t \<Rightarrow> Number t | None \<Rightarrow> Undefined)"

text \<open>\<open>t0 + (t1 - t0) * alpha\<close>; arithmetic on \<open>undefined\<close> gives \<open>NaN\<close>.\<close>

definition js_lerp :: "jsval \<Rightarrow> jsval \<Rightarrow> real \<Rightarrow> jsval" where
  "js_lerp t0 t1 alpha =
     (case (t0, t1) of (Number a, Number b) \<Rightarrow> Number (a + (b - a) * alpha) | _ \<Rightarrow> NaN)"

text \<open>
  The interpolation loop over \<open>i = 0 .. years.length - 2\<close>, as a recursion over the
  sorted years; \<open>None\<close> when the loop ends without returning. The division is never by
  zero when it is reached: \<open>y0 \<le> year \<le> y1\<close> with \<open>y0 = y1\<close> would make \<open>year\<close> a key,
  and keys return before the loop.
\<close>

fun interpolate_loop :: "(real \<times> real) list \<Rightarrow> real \<Rightarrow> real list \<Rightarrow> jsval option" where
  "interpolate_loop tby year (y0 # y1 # rest) =
     (if year \<ge> y0 \<and> year \<le> y1 then
        (let t0 = year_prop tby y0;
             t1 = year_prop tby y1;
             alpha = (year - y0) / (y1 - y0)
         in Some (js_lerp t0 t1 alpha))
      else interpolate_loop tby year (y1 # rest))"
| "interpolate_loop tby year ys = None"

text \<open>
  With no keys at all \<open>years[0]\<close> is \<open>undefined\<close>: both clamp comparisons are false, the
  loop does not run and the final read returns \<open>undefined\<close>.
\<close>

definition getProjectedTemp :: "string \<Rightarrow> real \<Rightarrow> error + jsval" where
  "getProjectedTemp scenarioId year =
     (case getScenarioById scenarioId of
        Null \<Rightarrow> Inl (UnknownScenario scenarioId)
      | Inherited_member \<Rightarrow> Inl TypeError
      | Scenario s \<Rightarrow>
          (let tby = temperaturesByYear s;
               years = sort (map fst tby)
           in if year_prop tby year \<noteq> Undefined then Inr (year_prop tby year)
              else if years = [] then Inr Undefined
              else if year \<le> hd years then Inr (year_prop tby (hd years))
              else if year \<ge> last years then Inr (year_prop tby (last years))
              else (case interpolate_loop tby year years of
                      Some v \<Rightarrow> Inr v
                    | None \<Rightarrow> Inr (year_prop tby (hd years)))))"

text \<open>The anchors of a scenario, sorted by year.\<close>

definition anchors :: "scenario \<Rightarrow> (real \<times> real) list" where
  "anchors s = sort_key fst (temperaturesByYear s)"

section \<open>geoid.js: the texture encoding\<close>

definition GEOID_MIN :: real where "GEOID_MIN = - 107.0"
definition GEOID_MAX :: real where "GEOID_MAX = 86.0"
definition GEOID_RANGE :: real where "GEOID_RANGE = GEOID_MAX - GEOID_MIN"

text \<open>
  The two bytes written for one grid value, from its value in meters:
  \<open>hi = (encoded >> 8) & 0xff\<close> goes to the red channel and \<open>lo = encoded & 0xff\<close> to
  the green one.
\<close>

definition encode_undulation :: "real \<Rightarrow> int \<times> int" where
  "encode_undulation valueM =
     (let normalized = (valueM - GEOID_MIN) / GEOID_RANGE;
          clamped = max 0 (min 1 normalized);
          encoded = Math_round (clamped * 65535);
          hi = drop_bit 8 encoded AND 255;
          lo = encoded AND 255
      in (hi, lo))"

text \<open>The grid holds signed 16-bit centimeters (\<open>getInt16\<close>).\<close>

definition encode_grid_value :: "16 word \<Rightarrow> int \<times> int" where
  "encode_grid_value valueCm = encode_undulation (real_of_int (sint valueCm) / 100.0)"

section \<open>floodVisualization.js\<close>

subsection \<open>The geoid shader\<close>

text \<open>
  What the shader reads of a fragment: the water mask, the terrain height and the red
  and green channels of the geoid texel it samples (a channel byte \<open>b\<close> is sampled
  as \<open>b / 255\<close>).
\<close>

record fragment =
  waterMask :: real
  height :: real
  geoid_r :: real
  geoid_g :: real

record flood_uniforms =
  u_seaLevelRise :: real
  u_comparisonSLR :: real
  u_waterAlpha :: real
  u_geoidMin :: real
  u_geoidRange :: real
  u_floodLevel :: real
  u_comparisonLevel :: real

record material =
  diffuse :: "real \<times> real \<times> real"
  alpha :: real

definition texel :: "int \<times> int \<Rightarrow> real \<Rightarrow> real \<Rightarrow> fragment" where
  "texel bytes wm h =
     \<lparr>waterMask = wm, height = h,
      geoid_r = real_of_int (fst bytes) / 255, geoid_g = real_of_int (snd bytes) / 255\<rparr>"

text \<open>GLSL \<open>smoothstep\<close>, for \<open>edge0 < edge1\<close>.\<close>

definition smoothstep :: "real \<Rightarrow> real \<Rightarrow> real \<Rightarrow> real" where
  "smoothstep edge0 edge1 x =
     (let t = max 0 (min 1 ((x - edge0) / (edge1 - edge0))) in t * t * (3 - 2 * t))"

definition geoidUndulation :: "flood_uniforms \<Rightarrow> fragment \<Rightarrow> real" where
  "geoidUndulation u frag =
     (let encoded = geoid_r frag * (255.0 * 256.0 / 65535.0) + geoid_g frag * (255.0 / 65535.0)
      in encoded * u_geoidRange u + u_geoidMin u)"

definition flood_color :: "real \<times> real \<times> real" where
  "flood_color = (1.0, 0.65, 0.0)"

definition comparison_color :: "real \<times> real \<times> real" where
  "comparison_color = (1.0, 0.3, 0.1)"

text \<open>\<open>czm_getMaterial\<close> of \<open>FLOOD_SHADER_GEOID\<close>; the default material has a black diffuse.\<close>

definition FLOOD_SHADER_GEOID :: "flood_uniforms \<Rightarrow> fragment \<Rightarrow> material" where
  "FLOOD_SHADER_GEOID u frag =
     (let material0 = \<lparr>diffuse = (0, 0, 0), alpha = 0.0\<rparr>
      in if waterMask frag > 0.5 then material0
         else
           (let h = height frag;
                floodSurface = geoidUndulation u frag + u_seaLevelRise u;
                edgeSoftness = 0.35;
                floodMask =
                  (if u_seaLevelRise u > 0.0
                   then 1.0 - smoothstep (floodSurface - edgeSoftness) (floodSurface + edgeSoftness) h
                   else 0.0);
                material1 =
                  (if floodMask > 0.001
                   then \<lparr>diffuse = flood_color, alpha = u_waterAlpha u * floodMask\<rparr>
                   else material0)
            in if u_comparisonSLR u > 0.0 then
                 (let compSurface = geoidUndulation u frag + u_comparisonSLR u;
                      lower = min floodSurface compSurface;
                      upper = max floodSurface compSurface
                  in if h \<ge> lower \<and> h < upper
                     then \<lparr>diffuse = comparison_color, alpha = 0.5\<rparr>
                     else material1)
               else material1))"

text \<open>A fragment is in the comparison band when the shader paints it in the comparison color.\<close>

definition isComparisonBand :: "flood_uniforms \<Rightarrow> fragment \<Rightarrow> bool" where
  "isComparisonBand u frag \<longleftrightarrow> diffuse (FLOOD_SHADER_GEOID u frag) = comparison_color"

subsection \<open>The module state and its operations\<close>

record 'r snapshot =
  seaLevelRise :: real
  simulationResult :: 'r
  timestamp :: nat

text \<open>
  The module variables, and \<open>viewer.scene.globe.material\<close> (\<open>globe_material\<close> says whether
  the flood material is attached). \<open>floodMaterial\<close> is \<open>null\<close> until
  \<open>initFloodVisualization\<close> runs; of the material only its uniforms are kept. One record
  holds the uniforms of both shader variants: the geoid variant uses \<open>seaLevelRise\<close>,
  \<open>comparisonSLR\<close>, \<open>geoidMin\<close> and \<open>geoidRange\<close>, the fallback \<open>floodLevel\<close> and
  \<open>comparisonLevel\<close>, both \<open>waterAlpha\<close>; the module only writes the ones of the variant in
  use.
\<close>

record 'r flood_state =
  floodMaterial :: "flood_uniforms option"
  previousSnapshot :: "'r snapshot option"
  currentSnapshot :: "'r snapshot option"
  waterAlpha :: real
  targetAlpha :: real
  alphaAnimating :: bool
  useGeoidTexture :: bool
  globe_material :: bool

definition initial_state :: "'r flood_state" where
  "initial_state =
     \<lparr>floodMaterial = None, previousSnapshot = None, currentSnapshot = None,
      waterAlpha = 0, targetAlpha = 0, alphaAnimating = False, useGeoidTexture = False,
      globe_material = False\<rparr>"

definition initFloodVisualization :: "'r flood_state \<Rightarrow> bool \<Rightarrow> 'r flood_state" where
  "initFloodVisualization st geoidCanvas_present =
     st\<lparr>useGeoidTexture := geoidCanvas_present,
        floodMaterial :=
          Some \<lparr>u_seaLevelRise = 0.0, u_comparisonSLR = 0.0, u_waterAlpha = 0.0,
                u_geoidMin = GEOID_MIN, u_geoidRange = GEOID_RANGE,
                u_floodLevel = 0.0, u_comparisonLevel = 0.0\<rparr>\<rparr>"

definition clear_comparison :: "bool \<Rightarrow> flood_uniforms \<Rightarrow> flood_uniforms" where
  "clear_comparison geoid u =
     (if geoid then u\<lparr>u_comparisonSLR := 0.0\<rparr> else u\<lparr>u_comparisonLevel := 0.0\<rparr>)"

definition clearFlood :: "'r flood_state \<Rightarrow> 'r flood_state" where
  "clearFlood st =
     st\<lparr>previousSnapshot := currentSnapshot st,
        currentSnapshot := None,
        floodMaterial :=
          map_option (\<lambda>u. clear_comparison (useGeoidTexture st) (u\<lparr>u_waterAlpha := 0.0\<rparr>))
            (floodMaterial st),
        waterAlpha := 0, targetAlpha := 0, alphaAnimating := False,
        globe_material := False\<rparr>"

text \<open>
  \<open>setFloodLevel(viewer, seaLevelRise, simulationResult, recordSnapshot)\<close>; \<open>now\<close> is the
  value of \<open>Date.now()\<close>. The snapshots are written before anything can throw, so the
  state is returned in every case, together with the \<open>TypeError\<close> of reading
  \<open>floodMaterial.uniforms\<close> when \<open>floodMaterial\<close> is still \<open>null\<close>.
\<close>

definition setFloodLevel ::
  "'r flood_state \<Rightarrow> real \<Rightarrow> 'r \<Rightarrow> bool \<Rightarrow> nat \<Rightarrow> error option \<times> 'r flood_state" where
  "setFloodLevel st slr simResult recordSnapshot now =
     (let st1 =
            (if recordSnapshot then
               st\<lparr>previousSnapshot :=
                     (if currentSnapshot st \<noteq> None then currentSnapshot st
                      else previousSnapshot st),
                  currentSnapshot :=
                     Some \<lparr>seaLevelRise = slr, simulationResult = simResult, timestamp = now\<rparr>\<rparr>
             else st)
      in if slr \<le> 0 then (None, clearFlood st1)
         else
           (case floodMaterial st1 of
              None \<Rightarrow> (Some TypeError, st1)
            | Some u \<Rightarrow>
                (let u1 = (if useGeoidTexture st1
                           then u\<lparr>u_seaLevelRise := slr, u_comparisonSLR := 0.0\<rparr>
                           else u\<lparr>u_floodLevel := slr, u_comparisonLevel := 0.0\<rparr>)
                 in (None,
                     st1\<lparr>floodMaterial := Some (u1\<lparr>u_waterAlpha := 0\<rparr>),
                         globe_material := True,
                         waterAlpha := 0, targetAlpha := 0.55, alphaAnimating := True\<rparr>))))"

definition showComparison :: "'r flood_state \<Rightarrow> bool \<times> 'r flood_state" where
  "showComparison st =
     (case (previousSnapshot st, currentSnapshot st, floodMaterial st) of
        (Some prev, Some cur, Some u) \<Rightarrow>
          (True,
           st\<lparr>floodMaterial :=
                Some (if useGeoidTexture st
                      then u\<lparr>u_comparisonSLR := seaLevelRise prev\<rparr>
                      else u\<lparr>u_comparisonLevel := seaLevelRise prev\<rparr>)\<rparr>)
      | _ \<Rightarrow> (False, st))"

definition hideComparison :: "'r flood_state \<Rightarrow> 'r flood_state" where
  "hideComparison st =
     st\<lparr>floodMaterial := map_option (clear_comparison (useGeoidTexture st)) (floodMaterial st)\<rparr>"

text \<open>One run of the animation frame callback \<open>animate\<close> that \<open>startAlphaAnimation\<close> installs.\<close>

definition animate :: "'r flood_state \<Rightarrow> 'r flood_state" where
  "animate st =
     (case floodMaterial st of
        None \<Rightarrow> st
      | Some u \<Rightarrow>
          if \<not> alphaAnimating st then st
          else
            (let diff = targetAlpha st - waterAlpha st
             in if \<bar>diff\<bar> > 0.005 then
                  st\<lparr>waterAlpha := waterAlpha st + diff * 0.08,
                     floodMaterial := Some (u\<lparr>u_waterAlpha := waterAlpha st + diff * 0.08\<rparr>)\<rparr>
                else
                  st\<lparr>waterAlpha := targetAlpha st,
                     floodMaterial := Some (u\<lparr>u_waterAlpha := targetAlpha st\<rparr>),
                     alphaAnimating := False,
                     globe_material := (if targetAlpha st = 0 then False else globe_material st)\<rparr>))"

section \<open>Predicates and inputs used in the statements\<close>

text \<open>A summary whose five rank statistics are numbers in ascending order.\<close>

definition ordered_summary :: "'a stat_summary_scheme \<Rightarrow> bool" where
  "ordered_summary s =
     (case (min_stat s, p5 s, median s, p95 s, max_stat s) of
        (Number a, Number b, Number c, Number d, Number e) \<Rightarrow>
          a \<le> b \<and> b \<le> c \<and> c \<le> d \<and> d \<le> e
      | _ \<Rightarrow> False)"

text \<open>
  The invariant of the main loop: \<open>contributorTotals\<close> holds one column per contributor,
  in the order of the table, every column is as long as \<open>results\<close>, and the totals add
  up to the sum of all the columns.
\<close>

definition totals_inv :: "real list \<Rightarrow> contributor_totals \<Rightarrow> bool" where
  "totals_inv res ct \<longleftrightarrow>
     (\<exists>c1 c2 c3 c4 c5.
        ct = [(''thermalExpansion'', c1), (''glaciers'', c2), (''greenland'', c3),
              (''antarctic'', c4), (''landWater'', c5)] \<and>
        length c1 = length res \<and> length c2 = length res \<and> length c3 = length res \<and>
        length c4 = length res \<and> length c5 = length res \<and>
        sum_list res = sum_list c1 + sum_list c2 + sum_list c3 + sum_list c4 + sum_list c5)"

text \<open>
  Two states of \<open>Math.random\<close>. Both return \<open>1/2\<close> at every even call (the \<open>u1\<close> of a
  sample); at every odd call (the \<open>u2\<close>) the first returns \<open>1/4\<close>, so that
  \<open>cos(2 \<pi> u2) = 0\<close>, and the second returns \<open>0\<close>, so that \<open>cos(2 \<pi> u2) = 1\<close>.
\<close>

definition source_quarter :: "nat \<Rightarrow> real" where
  "source_quarter i = (if even i then 1 / 2 else 1 / 4)"

definition source_zero :: "nat \<Rightarrow> real" where
  "source_zero i = (if even i then 1 / 2 else 0)"

definition rng_quarter :: rng_state where
  "rng_quarter = \<lparr>source = source_quarter, drawn = 0\<rparr>"

definition rng_zero :: rng_state where
  "rng_zero = \<lparr>source = source_zero, drawn = 0\<rparr>"

definition ui_options :: sim_options where
  "ui_options = \<lparr>seed = 2337\<rparr>"

text \<open>
  States of the flood module reached through its exported functions, starting from
  \<open>initFloodVisualization\<close> with a geoid texture: after a flood of 1 m was set and
  cleared; after levels 1 m and 2 m were set; the latter with the comparison shown;
  and after levels 0 m and 2 m were set and the comparison shown.
\<close>

definition demo_ready :: "unit flood_state" where
  "demo_ready = initFloodVisualization initial_state True"

definition demo_cleared :: "unit flood_state" where
  "demo_cleared = clearFlood (snd (setFloodLevel demo_ready 1 () True 10))"

definition demo_zero_then_two :: "unit flood_state" where
  "demo_zero_then_two =
     snd (showComparison
       (snd (setFloodLevel (snd (setFloodLevel demo_ready 0 () True 10)) 2 () True 20)))"

definition demo_one_then_two :: "unit flood_state" where
  "demo_one_then_two =
     snd (showComparison
       (snd (setFloodLevel (snd (setFloodLevel demo_ready 1 () True 10)) 2 () True 20)))"

definition demo_two_levels :: "unit flood_state" where
  "demo_two_levels = snd (setFloodLevel (snd (setFloodLevel demo_ready 1 () True 10)) 2 () True 20)"

section \<open>Properties of the statistics\<close>

lemma sum_list_insort: "sum_list (insort x xs) = x + sum_list (xs :: real list)"
  by (induction xs) simp_all

lemma sum_list_sort: "sum_list (sort xs) = sum_list (xs :: real list)"
  by (induction xs) (simp_all add: sum_list_insort)

lemma sampleNormal_rng:
  "sampleNormal m s rng = (v, rng') \<Longrightarrow> source rng' = source rng \<and> drawn rng' = drawn rng + 2"
  by (auto simp: sampleNormal_def Math_random_def Let_def split: prod.splits)

text \<open>One iteration: five clamped values in table order, their sum, and ten draws.\<close>

lemma singleIteration_shape:
  "\<exists>v1 v2 v3 v4 v5 rng'.
     singleIteration t rng =
       ((0 + v1 + v2 + v3 + v4 + v5,
         [(''thermalExpansion'', v1), (''glaciers'', v2), (''greenland'', v3),
          (''antarctic'', v4), (''landWater'', v5)]), rng') \<and>
     0 \<le> v1 \<and> 0 \<le> v2 \<and> 0 \<le> v3 \<and> 0 \<le> v4 \<and> 0 \<le> v5 \<and>
     source rng' = source rng \<and> drawn rng' = drawn rng + 10"
  unfolding singleIteration_def CONTRIBUTORS_def
  by (auto simp: Let_def clampPositive_def split: prod.splits dest!: sampleNormal_rng)

lemma totals_inv_init: "totals_inv [] (map (\<lambda>key. (key, [])) (map fst CONTRIBUTORS))"
  by (simp add: totals_inv_def CONTRIBUTORS_def)

lemma totals_inv_step:
  assumes "totals_inv res ct" and "singleIteration t rng = ((tot, bd), rng')"
  shows "totals_inv (res @ [tot]) (push_breakdown bd ct)"
proof -
  from singleIteration_shape[of t rng] assms(2) obtain v1 v2 v3 v4 v5 where
    tot: "tot = 0 + v1 + v2 + v3 + v4 + v5" and
    bd: "bd = [(''thermalExpansion'', v1), (''glaciers'', v2), (''greenland'', v3),
          (''antarctic'', v4), (''landWater'', v5)]"
    by auto
  from assms(1) obtain c1 c2 c3 c4 c5 where
    ct: "ct = [(''thermalExpansion'', c1), (''glaciers'', c2), (''greenland'', c3),
              (''antarctic'', c4), (''landWater'', c5)]" and
    len: "length c1 = length res" "length c2 = length res" "length c3 = length res"
        "length c4 = length res" "length c5 = length res" and
    sm: "sum_list res = sum_list c1 + sum_list c2 + sum_list c3 + sum_list c4 + sum_list c5"
    unfolding totals_inv_def by blast
  have pb: "push_breakdown bd ct =
      [(''thermalExpansion'', c1 @ [v1]), (''glaciers'', c2 @ [v2]), (''greenland'', c3 @ [v3]),
       (''antarctic'', c4 @ [v4]), (''landWater'', c5 @ [v5])]"
    unfolding bd ct by (simp add: push_value_def)
  show ?thesis
    unfolding totals_inv_def pb using len sm tot by simp
qed

lemma simulation_loop_inv:
  "totals_inv res ct \<Longrightarrow> simulation_loop t k (res, ct, rng) = (res', ct', rng') \<Longrightarrow>
     totals_inv res' ct' \<and> length res' = length res + k \<and>
     source rng' = source rng \<and> drawn rng' = drawn rng + 10 * k"
proof (induction k arbitrary: res ct rng)
  case 0
  then show ?case by simp
next
  case (Suc k)
  obtain tot bd rng1 where si: "singleIteration t rng = ((tot, bd), rng1)"
    by (metis surj_pair)
  from singleIteration_shape[of t rng] si
  have r1: "source rng1 = source rng" "drawn rng1 = drawn rng + 10" by auto
  from Suc.prems(2) si
  have "simulation_loop t k (res @ [tot], push_breakdown bd ct, rng1) = (res', ct', rng')"
    by simp
  from Suc.IH[OF totals_inv_step[OF Suc.prems(1) si] this] r1
  show ?case by simp
qed


lemma foldl_plus_sum_list: "foldl (+) a xs = a + sum_list (xs :: real list)"
  by (induction xs arbitrary: a) simp_all

lemma floor_half: "Math_floor (real n * 0.5) = int (n div 2)"
proof -
  have "real n * 0.5 = real n / real 2" by simp
  then show ?thesis
    unfolding Math_floor_def by (simp only: floor_divide_of_nat_eq)
qed

lemma floor_p5: "Math_floor (real n * 0.05) = int (n div 20)"
proof -
  have "real n * 0.05 = real n / real 20" by simp
  then show ?thesis
    unfolding Math_floor_def by (simp only: floor_divide_of_nat_eq)
qed

lemma floor_p95: "Math_floor (real n * 0.95) = int ((19 * n) div 20)"
proof -
  have "real n * 0.95 = real (19 * n) / real 20" by simp
  then show ?thesis
    unfolding Math_floor_def by (simp only: floor_divide_of_nat_eq)
qed

lemma rank_bounds:
  assumes "0 < (n::nat)"
  shows "n div 20 \<le> n div 2" "n div 2 \<le> (19 * n) div 20" "(19 * n) div 20 \<le> n - 1"
    "n div 2 < n" "n div 20 < n" "(19 * n) div 20 < n"
  using assms by simp_all

lemma computeStats_fields:
  assumes "xs \<noteq> []"
  shows "computeStats xs =
           \<lparr>mean = Number (sum_list xs / real (length xs)),
            median = Number (xs ! (length xs div 2)),
            p5 = Number (xs ! (length xs div 20)),
            p95 = Number (xs ! ((19 * length xs) div 20)),
            min_stat = Number (xs ! 0),
            max_stat = Number (xs ! (length xs - 1))\<rparr>"
proof -
  from assms have n: "0 < length xs" by simp
  have idx: "nat (int (length xs) - 1) = length xs - 1" using n by simp
  show ?thesis
    unfolding computeStats_def Let_def floor_half floor_p5 floor_p95
    using n rank_bounds[OF n] idx
    by (simp add: js_index_def js_div_length_def foldl_plus_sum_list)
qed

text \<open>
  C3. For every sorted array of length \<open>n \<ge> 1\<close>, \<open>computeStats\<close> returns the element at
  index \<open>floor(n * 0.5)\<close> as median, at \<open>floor(n * 0.05)\<close> as p5 and at \<open>floor(n * 0.95)\<close>
  as p95 (the floors are \<open>n div 2\<close>, \<open>n div 20\<close> and \<open>19 n div 20\<close>, all inside the
  array); the mean is the sum of the elements over \<open>n\<close>, min is the first and max the
  last element. Every field is an element of the array or the mean: nothing is
  interpolated between two ranks.
\<close>

theorem computeStats_nearest_rank:
  assumes "sorted xs" and "1 \<le> length xs"
  shows "computeStats xs =
           \<lparr>mean = Number (sum_list xs / real (length xs)),
            median = Number (xs ! nat \<lfloor>real (length xs) * 0.5\<rfloor>),
            p5 = Number (xs ! nat \<lfloor>real (length xs) * 0.05\<rfloor>),
            p95 = Number (xs ! nat \<lfloor>real (length xs) * 0.95\<rfloor>),
            min_stat = Number (hd xs),
            max_stat = Number (last xs)\<rparr>
         \<and> nat \<lfloor>real (length xs) * 0.5\<rfloor> = length xs div 2
         \<and> nat \<lfloor>real (length xs) * 0.05\<rfloor> = length xs div 20
         \<and> nat \<lfloor>real (length xs) * 0.95\<rfloor> = (19 * length xs) div 20
         \<and> (19 * length xs) div 20 < length xs"
proof -
  from assms(2) have ne: "xs \<noteq> []" and n: "0 < length xs" by auto
  have hd: "xs ! 0 = hd xs" using ne by (simp add: hd_conv_nth)
  have lst: "xs ! (length xs - 1) = last xs" using ne by (simp add: last_conv_nth)
  have f1: "nat \<lfloor>real (length xs) * 0.5\<rfloor> = length xs div 2"
    using floor_half[of "length xs"] by (simp add: Math_floor_def)
  have f2: "nat \<lfloor>real (length xs) * 0.05\<rfloor> = length xs div 20"
    using floor_p5[of "length xs"] by (simp add: Math_floor_def)
  have f3: "nat \<lfloor>real (length xs) * 0.95\<rfloor> = (19 * length xs) div 20"
    using floor_p95[of "length xs"] by (simp add: Math_floor_def)
  show ?thesis
    unfolding f1 f2 f3 using computeStats_fields[OF ne] hd lst rank_bounds(6)[OF n] by simp
qed

theorem computeStats_nearest_rank_witness:
  "sorted [1, 2, 3 :: real] \<and> 1 \<le> length [1, 2, 3 :: real] \<and>
   computeStats [1, 2, 3] =
     \<lparr>mean = Number 2, median = Number 2, p5 = Number 1, p95 = Number 3,
      min_stat = Number 1, max_stat = Number 3\<rparr>"
  using computeStats_nearest_rank [of "[1, 2, 3]"] by simp

lemma run_positive:
  assumes "0 < temp"
    and "simulation_loop temp (nat iters)
           ([], map (\<lambda>key. (key, [])) (map fst CONTRIBUTORS), rng) = (res, ct, rng')"
  shows "runSimulation temp iters rng =
       (\<lparr>tempIncrease = temp, iterations = iters, results = sort res,
         stats = computeStats (sort res),
         contributorStats = map contributor_entry ct\<rparr>, rng')"
proof -
  from assms(1) have "\<not> temp \<le> 0" by simp
  then show ?thesis
    unfolding runSimulation_def assms(2) by (simp only: if_False prod.case)
qed

lemma runSimulation_shape:
  assumes "0 < temp"
  shows "\<exists>res c1 c2 c3 c4 c5 rng'.
     runSimulation temp iters rng =
       (\<lparr>tempIncrease = temp, iterations = iters, results = sort res,
         stats = computeStats (sort res),
         contributorStats =
           [contributor_entry (''thermalExpansion'', c1), contributor_entry (''glaciers'', c2),
            contributor_entry (''greenland'', c3), contributor_entry (''antarctic'', c4),
            contributor_entry (''landWater'', c5)]\<rparr>, rng') \<and>
     length res = nat iters \<and> length c1 = nat iters \<and> length c2 = nat iters \<and>
     length c3 = nat iters \<and> length c4 = nat iters \<and> length c5 = nat iters \<and>
     sum_list res = sum_list c1 + sum_list c2 + sum_list c3 + sum_list c4 + sum_list c5 \<and>
     source rng' = source rng \<and> drawn rng' = drawn rng + 10 * nat iters"
proof -
  obtain res ct rng' where
    lp: "simulation_loop temp (nat iters)
           ([], map (\<lambda>key. (key, [])) (map fst CONTRIBUTORS), rng) = (res, ct, rng')"
    by (metis surj_pair)
  from simulation_loop_inv[OF totals_inv_init lp]
  have inv: "totals_inv res ct" and len: "length res = nat iters"
    and r: "source rng' = source rng" "drawn rng' = drawn rng + 10 * nat iters"
    by simp_all
  from inv obtain c1 c2 c3 c4 c5 where
    ct: "ct = [(''thermalExpansion'', c1), (''glaciers'', c2), (''greenland'', c3),
              (''antarctic'', c4), (''landWater'', c5)]" and
    lens: "length c1 = length res" "length c2 = length res" "length c3 = length res"
        "length c4 = length res" "length c5 = length res" and
    sm: "sum_list res = sum_list c1 + sum_list c2 + sum_list c3 + sum_list c4 + sum_list c5"
    unfolding totals_inv_def by blast
  have run: "runSimulation temp iters rng =
       (\<lparr>tempIncrease = temp, iterations = iters, results = sort res,
         stats = computeStats (sort res),
         contributorStats =
           [contributor_entry (''thermalExpansion'', c1), contributor_entry (''glaciers'', c2),
            contributor_entry (''greenland'', c3), contributor_entry (''antarctic'', c4),
            contributor_entry (''landWater'', c5)]\<rparr>, rng')"
    unfolding run_positive[OF assms lp] ct by (simp only: list.map)
  from len lens have lens': "length c1 = nat iters" "length c2 = nat iters"
    "length c3 = nat iters" "length c4 = nat iters" "length c5 = nat iters"
    by simp_all
  show ?thesis
    by (intro exI conjI) (rule run len lens' sm r)+
qed

lemma computeStats_ordered:
  assumes "sorted xs" "xs \<noteq> []"
  shows "ordered_summary (computeStats xs)"
proof -
  from assms(2) have n: "0 < length xs" by simp
  note rb = rank_bounds[OF n]
  have a: "xs ! 0 \<le> xs ! (length xs div 20)"
    using assms(1) rb by (intro sorted_nth_mono) simp_all
  have b: "xs ! (length xs div 20) \<le> xs ! (length xs div 2)"
    using assms(1) rb by (intro sorted_nth_mono) simp_all
  have c: "xs ! (length xs div 2) \<le> xs ! ((19 * length xs) div 20)"
    using assms(1) rb by (intro sorted_nth_mono) simp_all
  have d: "xs ! ((19 * length xs) div 20) \<le> xs ! (length xs - 1)"
    using assms(1) rb n by (intro sorted_nth_mono) simp_all
  show ?thesis
    unfolding computeStats_fields[OF assms(2)] ordered_summary_def
    using a b c d by simp
qed

lemma contributor_entry_simps:
  "fst (contributor_entry (k, vs)) = k"
  "mean (snd (contributor_entry (k, vs))) = mean (computeStats (sort vs))"
  "ordered_summary (snd (contributor_entry (k, vs))) = ordered_summary (computeStats (sort vs))"
  by (simp_all add: contributor_entry_def stat_summary.defs ordered_summary_def)

lemma sort_nonempty: "0 < length vs \<Longrightarrow> sort vs \<noteq> ([] :: real list)"
  by (metis length_sort length_greater_0_conv)

lemma sorted_stats_ordered:
  assumes "0 < length vs"
  shows "ordered_summary (computeStats (sort vs))"
  using sort_nonempty[OF assms] by (intro computeStats_ordered) simp_all

text \<open>
  C7. Every summary computed from a non-empty sorted array has
  \<open>min \<le> p5 \<le> median \<le> p95 \<le> max\<close>, and the summaries that \<open>runSimulation\<close> returns for
  a positive temperature and at least one iteration are of that kind: the one of the
  sorted totals and the one of each of the five contributors.
\<close>

theorem stats_rank_order:
  assumes "sorted xs" and "xs \<noteq> []" and "0 < temp" and "1 \<le> iters"
  shows "ordered_summary (computeStats xs)
       \<and> ordered_summary (stats (fst (runSimulation temp iters rng)))
       \<and> map fst (contributorStats (fst (runSimulation temp iters rng))) = map fst CONTRIBUTORS
       \<and> (\<forall>kv \<in> set (contributorStats (fst (runSimulation temp iters rng))).
             ordered_summary (snd kv))"
proof -
  from runSimulation_shape[OF assms(3), of iters rng] obtain res c1 c2 c3 c4 c5 rng' where
    run: "runSimulation temp iters rng =
       (\<lparr>tempIncrease = temp, iterations = iters, results = sort res,
         stats = computeStats (sort res),
         contributorStats =
           [contributor_entry (''thermalExpansion'', c1), contributor_entry (''glaciers'', c2),
            contributor_entry (''greenland'', c3), contributor_entry (''antarctic'', c4),
            contributor_entry (''landWater'', c5)]\<rparr>, rng')" and
    len: "length res = nat iters" "length c1 = nat iters" "length c2 = nat iters"
      "length c3 = nat iters" "length c4 = nat iters" "length c5 = nat iters"
    by blast
  from assms(4) have pos: "0 < nat iters" by simp
  have "ordered_summary (computeStats xs)"
    using assms(1,2) by (rule computeStats_ordered)
  moreover have "ordered_summary (stats (fst (runSimulation temp iters rng)))"
    unfolding run using sorted_stats_ordered[of res] len pos by simp
  moreover have "map fst (contributorStats (fst (runSimulation temp iters rng))) = map fst CONTRIBUTORS"
    unfolding run by (simp add: contributor_entry_simps CONTRIBUTORS_def)
  moreover have "\<forall>kv \<in> set (contributorStats (fst (runSimulation temp iters rng))).
             ordered_summary (snd kv)"
    unfolding run
    using sorted_stats_ordered[of c1] sorted_stats_ordered[of c2] sorted_stats_ordered[of c3]
      sorted_stats_ordered[of c4] sorted_stats_ordered[of c5] len pos
    by (simp add: contributor_entry_simps)
  ultimately show ?thesis by blast
qed

theorem stats_rank_order_witness:
  "sorted [1, 2, 3 :: real] \<and> [1, 2, 3 :: real] \<noteq> [] \<and> (0::real) < 1 \<and> (1::int) \<le> 1
   \<and> ordered_summary (computeStats [1, 2, 3])
   \<and> ordered_summary (stats (fst (runSimulation 1 1 rng_quarter)))
   \<and> ordered_summary (snd (contributorStats (fst (runSimulation 1 1 rng_quarter)) ! 3))"
proof -
  let ?cs = "contributorStats (fst (runSimulation 1 1 rng_quarter))"
  have pre: "sorted [1, 2, 3 :: real]" "[1, 2, 3 :: real] \<noteq> []" "(0::real) < 1" "(1::int) \<le> 1"
    by simp_all
  note r = stats_rank_order[OF pre, of rng_quarter]
  from r have keys: "map fst ?cs = map fst CONTRIBUTORS"
    and entries: "\<forall>kv \<in> set ?cs. ordered_summary (snd kv)"
    by blast+
  have "length (map fst ?cs) = 5" unfolding keys by (simp add: CONTRIBUTORS_def)
  then have "?cs ! 3 \<in> set ?cs" by simp
  with entries have "ordered_summary (snd (?cs ! 3))" by blast
  with r pre show ?thesis by blast
qed

lemma mean_sorted:
  assumes "0 < length vs"
  shows "mean (computeStats (sort vs)) = Number (sum_list vs / real (length vs))"
proof -
  from computeStats_fields[OF sort_nonempty[OF assms]] show ?thesis by (simp add: sum_list_sort)
qed

text \<open>
  C8. For a positive temperature and \<open>n \<ge> 1\<close> iterations, the means of the five
  contributor summaries add up to the mean of the totals, exactly, in real arithmetic:
  every total is the sum of the five clamped values of its iteration, and sorting a
  column does not change its sum.
\<close>

theorem contributor_means_sum_to_total_mean:
  assumes "0 < temp" and "1 \<le> iters"
  shows "\<exists>m ms. mean (stats (fst (runSimulation temp iters rng))) = Number m
           \<and> map (\<lambda>kv. mean (snd kv)) (contributorStats (fst (runSimulation temp iters rng)))
               = map Number ms
           \<and> map fst (contributorStats (fst (runSimulation temp iters rng))) = map fst CONTRIBUTORS
           \<and> length ms = 5
           \<and> sum_list ms = m"
proof -
  from runSimulation_shape[OF assms(1), of iters rng] obtain res c1 c2 c3 c4 c5 rng' where
    run: "runSimulation temp iters rng =
       (\<lparr>tempIncrease = temp, iterations = iters, results = sort res,
         stats = computeStats (sort res),
         contributorStats =
           [contributor_entry (''thermalExpansion'', c1), contributor_entry (''glaciers'', c2),
            contributor_entry (''greenland'', c3), contributor_entry (''antarctic'', c4),
            contributor_entry (''landWater'', c5)]\<rparr>, rng')" and
    len: "length res = nat iters" "length c1 = nat iters" "length c2 = nat iters"
      "length c3 = nat iters" "length c4 = nat iters" "length c5 = nat iters" and
    sm: "sum_list res = sum_list c1 + sum_list c2 + sum_list c3 + sum_list c4 + sum_list c5"
    by blast
  from assms(2) have pos: "0 < nat iters" by simp
  define n where "n = real (nat iters)"
  have m: "mean (stats (fst (runSimulation temp iters rng))) = Number (sum_list res / n)"
    unfolding run n_def using mean_sorted[of res] len pos by simp
  have ms: "map (\<lambda>kv. mean (snd kv)) (contributorStats (fst (runSimulation temp iters rng)))
      = map Number [sum_list c1 / n, sum_list c2 / n, sum_list c3 / n, sum_list c4 / n,
                    sum_list c5 / n]"
    unfolding run n_def
    using mean_sorted[of c1] mean_sorted[of c2] mean_sorted[of c3] mean_sorted[of c4]
      mean_sorted[of c5] len pos
    by (simp add: contributor_entry_simps)
  have keys: "map fst (contributorStats (fst (runSimulation temp iters rng))) = map fst CONTRIBUTORS"
    unfolding run by (simp add: contributor_entry_simps CONTRIBUTORS_def)
  have total: "sum_list [sum_list c1 / n, sum_list c2 / n, sum_list c3 / n, sum_list c4 / n,
                    sum_list c5 / n] = sum_list res / n"
    unfolding sm by (simp add: add_divide_distrib)
  from m ms keys total show ?thesis
    by (intro exI[of _ "sum_list res / n"]
          exI[of _ "[sum_list c1 / n, sum_list c2 / n, sum_list c3 / n, sum_list c4 / n,
                    sum_list c5 / n]"]) simp
qed

theorem contributor_means_sum_to_total_mean_witness:
  "(0::real) < 1 \<and> (1::int) \<le> 1 \<and>
   (\<exists>m ms. mean (stats (fst (runSimulation 1 1 rng_quarter))) = Number m
           \<and> map (\<lambda>kv. mean (snd kv)) (contributorStats (fst (runSimulation 1 1 rng_quarter)))
               = map Number ms
           \<and> sum_list ms = m)"
  using contributor_means_sum_to_total_mean [of 1 1 rng_quarter] by auto


lemma sample_quarter:
  "source rng = source_quarter \<Longrightarrow> even (drawn rng) \<Longrightarrow>
   sampleNormal m s rng = (m, rng\<lparr>drawn := drawn rng + 2\<rparr>)"
  by (simp add: sampleNormal_def Math_random_def source_quarter_def)

lemma sample_zero:
  "source rng = source_zero \<Longrightarrow> even (drawn rng) \<Longrightarrow>
   sampleNormal m s rng = (m + sqrt (2 * ln 2) * s, rng\<lparr>drawn := drawn rng + 2\<rparr>)"
  by (simp add: sampleNormal_def Math_random_def source_zero_def ln_div)

lemma results_quarter: "results (fst (runSimulation 1 1 rng_quarter)) = [34 / 100]"
  by (simp add: runSimulation_def singleIteration_def CONTRIBUTORS_def Let_def
      sample_quarter rng_quarter_def clampPositive_def)

lemma results_zero:
  "results (fst (runSimulation 1 1 rng_zero)) = [34 / 100 + sqrt (2 * ln 2) * (20 / 100)]"
  by (simp add: runSimulation_def singleIteration_def CONTRIBUTORS_def Let_def
      sample_zero rng_zero_def clampPositive_def algebra_simps)

text \<open>
  C1. The seed that ui.js passes does not reach the generator: two calls with the same
  temperature, the same iteration count and the same seed return different totals when
  \<open>Math.random\<close> is in two different states.
\<close>

theorem runSimulation_not_determined_by_seed:
  "results (fst (runSimulation_call 1 1 ui_options rng_quarter))
     \<noteq> results (fst (runSimulation_call 1 1 ui_options rng_zero))"
proof -
  have "0 < sqrt (2 * ln (2::real))" by simp
  then show ?thesis
    unfolding runSimulation_call_def results_quarter results_zero by simp
qed


text \<open>
  C2 (as the code has it). For \<open>tempIncrease \<le> 0\<close>, whatever the iteration count and the
  seed, \<open>runSimulation\<close> returns \<open>tempIncrease = 0\<close>, \<open>iterations = 0\<close>, an empty \<open>results\<close>
  array, an all-zero summary of the totals and an empty \<open>contributorStats\<close> object (no
  entry for any contributor key), and leaves \<open>Math.random\<close> untouched.
\<close>

theorem runSimulation_nonpositive:
  assumes "temp \<le> 0"
  shows "runSimulation_call temp iters opts rng =
           (\<lparr>tempIncrease = 0, iterations = 0, results = [],
             stats = \<lparr>mean = Number 0, median = Number 0, p5 = Number 0, p95 = Number 0,
                      min_stat = Number 0, max_stat = Number 0\<rparr>,
             contributorStats = []\<rparr>, rng)
         \<and> map_of (contributorStats (fst (runSimulation_call temp iters opts rng))) key = None
         \<and> drawn (snd (runSimulation_call temp iters opts rng)) = drawn rng"
  using assms by (simp add: runSimulation_call_def runSimulation_def zero_stats_def)

theorem runSimulation_nonpositive_witness:
  "(0::real) \<le> 0 \<and>
   results (fst (runSimulation_call 0 5000 ui_options rng_quarter)) = [] \<and>
   iterations (fst (runSimulation_call 0 5000 ui_options rng_quarter)) = 0 \<and>
   drawn (snd (runSimulation_call 0 5000 ui_options rng_quarter)) = drawn rng_quarter"
  using runSimulation_nonpositive [of 0 5000 ui_options rng_quarter] by simp

text \<open>
  C2, against the claim as stated. That every one of the five contributors gets an
  all-zero summary fails:
  at temperature 0 the result has no entry under \<open>antarctic\<close> (nor under any other key).
\<close>

theorem runSimulation_zero_has_no_contributor_stats:
  "contributorStats (fst (runSimulation_call 0 5000 ui_options rng_quarter)) = [] \<and>
   map_of (contributorStats (fst (runSimulation_call 0 5000 ui_options rng_quarter)))
     ''antarctic'' = None"
  by (simp add: runSimulation_call_def runSimulation_def)

section \<open>The scenario resolver\<close>

lemma resolve_three:
  assumes "map_of SCENARIO_DATA sid = Some s"
    and "temperaturesByYear s = [(2030, a), (2050, b), (2100, c)]"
  shows "getProjectedTemp sid year =
     Inr (Number
       (if year = 2030 then a else if year = 2050 then b else if year = 2100 then c
        else if year < 2030 then a else if year > 2100 then c
        else if year < 2050 then a + (b - a) * ((year - 2030) / (2050 - 2030))
        else b + (c - b) * ((year - 2050) / (2100 - 2050))))"
  using assms
  by (simp add: getProjectedTemp_def getScenarioById_def Let_def year_prop_def js_lerp_def)

lemma registered_cases:
  "map_of SCENARIO_DATA sid = Some s \<Longrightarrow>
     (sid = ''ssp126'' \<and> temperaturesByYear s = [(2030, 1.5), (2050, 1.8), (2100, 2.0)]) \<or>
     (sid = ''ssp245'' \<and> temperaturesByYear s = [(2030, 1.6), (2050, 2.2), (2100, 2.9)]) \<or>
     (sid = ''ssp585'' \<and> temperaturesByYear s = [(2030, 1.8), (2050, 2.7), (2100, 4.4)])"
  by (auto simp: SCENARIO_DATA_def split: if_splits)

lemma registered_table:
  assumes "map_of SCENARIO_DATA sid = Some s"
  obtains a b c where "temperaturesByYear s = [(2030, a), (2050, b), (2100, c)]"
  using registered_cases[OF assms] by blast

lemma anchors_three:
  "temperaturesByYear s = [(2030, a), (2050, b), (2100, c)] \<Longrightarrow>
   anchors s = [(2030, a), (2050, b), (2100, c)]"
  by (simp add: anchors_def)

lemma map_of_ssp245:
  "map_of SCENARIO_DATA ''ssp245'' =
     Some \<lparr>scenario_id = ''ssp245'', label = ''SSP2-4.5'',
         description = ''Intermediate emissions pathway'',
         temperaturesByYear = [(2030, 1.6), (2050, 2.2), (2100, 2.9)]\<rparr>"
  by (simp add: SCENARIO_DATA_def)

lemma ssp245_values:
  "getProjectedTemp ''ssp245'' 2050 = Inr (Number 2.2)"
  "getProjectedTemp ''ssp245'' 2040 = Inr (Number 1.9)"
  "getProjectedTemp ''ssp245'' 2200 = Inr (Number 2.9)"
proof -
  note r = resolve_three[OF map_of_ssp245, of "1.6" "2.2" "2.9", simplified]
  show "getProjectedTemp ''ssp245'' 2050 = Inr (Number 2.2)" using r[of 2050] by simp
  show "getProjectedTemp ''ssp245'' 2040 = Inr (Number 1.9)" using r[of 2040] by simp
  show "getProjectedTemp ''ssp245'' 2200 = Inr (Number 2.9)" using r[of 2200] by simp
qed

lemma unregistered:
  "map_of SCENARIO_DATA sid = None \<Longrightarrow>
   getProjectedTemp sid year =
     (if sid \<in> set Object_prototype_keys then Inl TypeError else Inl (UnknownScenario sid))"
  by (simp add: getProjectedTemp_def getScenarioById_def)

lemma registered_iff:
  "map_of SCENARIO_DATA sid \<noteq> None \<longleftrightarrow> sid \<in> {''ssp126'', ''ssp245'', ''ssp585''}"
  by (simp add: SCENARIO_DATA_def)

text \<open>
  C4. For a registered scenario, with its anchors sorted by year: at an anchor year
  \<open>getProjectedTemp\<close> returns the anchor's temperature; before the earliest anchor it
  returns the earliest temperature and after the latest the latest; strictly between
  two consecutive anchors \<open>(y0, t0)\<close> and \<open>(y1, t1)\<close> it returns
  \<open>t0 + (t1 - t0) * (year - y0) / (y1 - y0)\<close>. In particular ssp245 gives 2.2 at 2050,
  1.9 at 2040 and 2.9 at 2200 (in exact arithmetic).
\<close>

theorem getProjectedTemp_resolution:
  assumes "map_of SCENARIO_DATA sid = Some s"
  shows "(\<forall>i < length (anchors s).
            getProjectedTemp sid (fst (anchors s ! i)) = Inr (Number (snd (anchors s ! i))))
       \<and> (year < fst (hd (anchors s)) \<longrightarrow>
            getProjectedTemp sid year = Inr (Number (snd (hd (anchors s)))))
       \<and> (year > fst (last (anchors s)) \<longrightarrow>
            getProjectedTemp sid year = Inr (Number (snd (last (anchors s)))))
       \<and> (\<forall>i. i + 1 < length (anchors s) \<and>
             fst (anchors s ! i) < year \<and> year < fst (anchors s ! (i + 1)) \<longrightarrow>
             getProjectedTemp sid year =
               Inr (Number (snd (anchors s ! i)
                      + (snd (anchors s ! (i + 1)) - snd (anchors s ! i))
                        * (year - fst (anchors s ! i))
                        / (fst (anchors s ! (i + 1)) - fst (anchors s ! i)))))
       \<and> sorted (map fst (anchors s)) \<and> distinct (map fst (anchors s))
       \<and> set (anchors s) = set (temperaturesByYear s)
       \<and> getProjectedTemp ''ssp245'' 2050 = Inr (Number 2.2)
       \<and> getProjectedTemp ''ssp245'' 2040 = Inr (Number 1.9)
       \<and> getProjectedTemp ''ssp245'' 2200 = Inr (Number 2.9)"
proof -
  from registered_table[OF assms] obtain a b c where
    t: "temperaturesByYear s = [(2030, a), (2050, b), (2100, c)]" by blast
  note an = anchors_three[OF t]
  note r = resolve_three[OF assms t]
  have hit: "\<forall>i < length (anchors s).
            getProjectedTemp sid (fst (anchors s ! i)) = Inr (Number (snd (anchors s ! i)))"
    unfolding an by (auto simp: less_Suc_eq r)
  have lo: "year < fst (hd (anchors s)) \<longrightarrow>
            getProjectedTemp sid year = Inr (Number (snd (hd (anchors s))))"
    unfolding an by (simp add: r)
  have hi: "year > fst (last (anchors s)) \<longrightarrow>
            getProjectedTemp sid year = Inr (Number (snd (last (anchors s))))"
    unfolding an by (simp add: r)
  have mid: "\<forall>i. i + 1 < length (anchors s) \<and>
             fst (anchors s ! i) < year \<and> year < fst (anchors s ! (i + 1)) \<longrightarrow>
             getProjectedTemp sid year =
               Inr (Number (snd (anchors s ! i)
                      + (snd (anchors s ! (i + 1)) - snd (anchors s ! i))
                        * (year - fst (anchors s ! i))
                        / (fst (anchors s ! (i + 1)) - fst (anchors s ! i))))"
    unfolding an by (auto simp: less_Suc_eq r)
  have srt: "sorted (map fst (anchors s))" "distinct (map fst (anchors s))"
    "set (anchors s) = set (temperaturesByYear s)"
    unfolding an t by simp_all
  from hit lo hi mid srt ssp245_values show ?thesis by blast
qed

theorem getProjectedTemp_resolution_witness:
  "map_of SCENARIO_DATA ''ssp585'' =
     Some \<lparr>scenario_id = ''ssp585'', label = ''SSP5-8.5'',
         description = ''High emissions, high warming pathway'',
         temperaturesByYear = [(2030, 1.8), (2050, 2.7), (2100, 4.4)]\<rparr>
   \<and> getProjectedTemp ''ssp585'' 2100 = Inr (Number 4.4)
   \<and> getProjectedTemp ''ssp585'' 2000 = Inr (Number 1.8)
   \<and> getProjectedTemp ''ssp585'' 2075 = Inr (Number 3.55)"
proof -
  have m: "map_of SCENARIO_DATA ''ssp585'' =
     Some \<lparr>scenario_id = ''ssp585'', label = ''SSP5-8.5'',
         description = ''High emissions, high warming pathway'',
         temperaturesByYear = [(2030, 1.8), (2050, 2.7), (2100, 4.4)]\<rparr>"
    by (simp add: SCENARIO_DATA_def)
  have a: "anchors \<lparr>scenario_id = ''ssp585'', label = ''SSP5-8.5'',
         description = ''High emissions, high warming pathway'',
         temperaturesByYear = [(2030, 1.8), (2050, 2.7), (2100, 4.4)]\<rparr>
        = [(2030, 1.8), (2050, 2.7), (2100, 4.4)]"
    by (simp add: anchors_def)
  from getProjectedTemp_resolution[OF m, of 2000, unfolded a]
  have lo: "getProjectedTemp ''ssp585'' 2000 = Inr (Number 1.8)" by simp
  from getProjectedTemp_resolution[OF m, of 2075, unfolded a]
  have hit: "getProjectedTemp ''ssp585'' 2100 = Inr (Number 4.4)"
    and mid: "getProjectedTemp ''ssp585'' 2075 = Inr (Number 3.55)"
    by (auto dest: spec[of _ 1] spec[of _ 2])
  from m lo hit mid show ?thesis by blast
qed

text \<open>
  What holds of the failure behaviour: the call fails exactly for the ids outside the
  registered set, a registered id always yields a number, and an unregistered id that
  is not a member of \<open>Object.prototype\<close> yields the unknown-scenario error.
\<close>

lemma getProjectedTemp_fails_iff:
  "(\<exists>e. getProjectedTemp sid year = Inl e) \<longleftrightarrow> sid \<notin> {''ssp126'', ''ssp245'', ''ssp585''}"
proof (cases "map_of SCENARIO_DATA sid")
  case None
  with unregistered[OF None, of year] registered_iff[of sid] show ?thesis by auto
next
  case (Some s)
  from registered_table[OF Some] obtain a b c where
    t: "temperaturesByYear s = [(2030, a), (2050, b), (2100, c)]" by blast
  from resolve_three[OF Some t, of year] Some registered_iff[of sid] show ?thesis by auto
qed

lemma getProjectedTemp_registered:
  assumes "sid \<in> {''ssp126'', ''ssp245'', ''ssp585''}"
  shows "\<exists>t. getProjectedTemp sid year = Inr (Number t)"
proof -
  from assms registered_iff[of sid] obtain s where m: "map_of SCENARIO_DATA sid = Some s"
    by auto
  from registered_table[OF m] obtain a b c where
    t: "temperaturesByYear s = [(2030, a), (2050, b), (2100, c)]" by blast
  from resolve_three[OF m t, of year] show ?thesis by blast
qed

lemma getProjectedTemp_unknown:
  assumes "sid \<notin> {''ssp126'', ''ssp245'', ''ssp585''}" and "sid \<notin> set Object_prototype_keys"
  shows "getProjectedTemp sid year = Inl (UnknownScenario sid)"
proof -
  from assms(1) registered_iff[of sid] have "map_of SCENARIO_DATA sid = None" by auto
  from unregistered[OF this, of year] assms(2) show ?thesis by simp
qed

text \<open>
  C9. The id \<open>constructor\<close> is not registered, yet \<open>getScenarioById\<close> does not return
  \<open>null\<close> for it: the lookup finds the member inherited from \<open>Object.prototype\<close>, the
  unknown-scenario check is passed, and the call fails in \<open>Object.keys\<close> with a
  \<open>TypeError\<close> instead of the unknown-scenario error.
\<close>

theorem getProjectedTemp_inherited_key:
  "getScenarioById ''constructor'' = Inherited_member
   \<and> getProjectedTemp ''constructor'' 2050 = Inl TypeError
   \<and> getProjectedTemp ''constructor'' 2050 \<noteq> Inl (UnknownScenario ''constructor'')"
  by (simp add: getProjectedTemp_def getScenarioById_def SCENARIO_DATA_def
      Object_prototype_keys_def)

section \<open>The geoid encoding\<close>

lemma and_255: "(x::int) AND 255 = x mod 256"
proof -
  have m: "(255::int) = mask 8" by (simp add: mask_eq_exp_minus_1)
  have "x AND mask 8 = x mod 2 ^ 8" by (simp only: take_bit_eq_mod flip: take_bit_eq_mask)
  then show ?thesis unfolding m[symmetric] by simp
qed

lemma bytes_of_encoded:
  assumes "0 \<le> e" "e \<le> 65535"
  shows "256 * (drop_bit 8 e AND 255) + (e AND 255) = (e::int)"
proof -
  have "drop_bit 8 e = e div 256" by (simp add: drop_bit_eq_div)
  moreover have "e div 256 mod 256 = e div 256" using assms by (intro mod_pos_pos_trivial) auto
  ultimately show ?thesis by (simp add: and_255)
qed

lemma round_bounds: "\<bar>real_of_int (Math_round x) - x\<bar> \<le> 1 / 2"
  unfolding Math_round_def by linarith

lemma round_range:
  assumes "0 \<le> c" "c \<le> 1"
  shows "0 \<le> Math_round (c * 65535)" "Math_round (c * 65535) \<le> 65535"
proof -
  have "0 \<le> c * 65535" "c * 65535 \<le> 65535" using assms by simp_all
  then show "0 \<le> Math_round (c * 65535)" "Math_round (c * 65535) \<le> 65535"
    unfolding Math_round_def by linarith+
qed

lemma abs_scale: "0 \<le> k \<Longrightarrow> \<bar>x * k\<bar> = \<bar>x\<bar> * (k::real)"
  by (simp add: abs_mult)

lemma decode_bytes:
  "geoidUndulation u (texel (hi, lo) wm h) =
     real_of_int (256 * hi + lo) / 65535 * u_geoidRange u + u_geoidMin u"
  by (simp add: geoidUndulation_def texel_def field_simps)

lemma encode_decode:
  assumes "GEOID_MIN \<le> v" "v \<le> GEOID_MAX"
    and "u_geoidMin u = GEOID_MIN" "u_geoidRange u = GEOID_RANGE"
  shows "\<bar>geoidUndulation u (texel (encode_undulation v) wm h) - v\<bar> \<le> GEOID_RANGE / 65535 / 2"
proof -
  define c where "c = (v - GEOID_MIN) / GEOID_RANGE"
  have rng: "GEOID_RANGE = 193" by (simp add: GEOID_RANGE_def GEOID_MAX_def GEOID_MIN_def)
  have c01: "0 \<le> c" "c \<le> 1"
    using assms(1,2) unfolding c_def rng by (simp_all add: GEOID_MAX_def GEOID_MIN_def)
  define e where "e = Math_round (c * 65535)"
  have cl: "max 0 (min 1 c) = c" using c01 by simp
  have enc: "encode_undulation v = (drop_bit 8 e AND 255, e AND 255)"
    unfolding encode_undulation_def Let_def e_def c_def[symmetric] cl by simp
  have er: "0 \<le> e" "e \<le> 65535" unfolding e_def using round_range[OF c01] by simp_all
  have dec: "geoidUndulation u (texel (encode_undulation v) wm h) =
      real_of_int e / 65535 * GEOID_RANGE + GEOID_MIN"
    unfolding enc decode_bytes bytes_of_encoded[OF er] assms(3,4) by simp
  have v: "v = c * GEOID_RANGE + GEOID_MIN" unfolding c_def rng by (simp add: field_simps)
  have eq: "geoidUndulation u (texel (encode_undulation v) wm h) - v =
      (real_of_int e - c * 65535) * (193 / 65535)"
  proof -
    have "real_of_int e / 65535 * GEOID_RANGE + GEOID_MIN - (c * GEOID_RANGE + GEOID_MIN) =
      (real_of_int e - c * 65535) * (193 / 65535)"
      unfolding rng by (simp add: field_simps)
    with v show ?thesis unfolding dec by simp
  qed
  have rb: "\<bar>real_of_int e - c * 65535\<bar> \<le> 1 / 2"
    unfolding e_def by (rule round_bounds)
  have "\<bar>(real_of_int e - c * 65535) * (193 / 65535)\<bar>
      = \<bar>real_of_int e - c * 65535\<bar> * (193 / 65535)"
    by (rule abs_scale) simp
  also have "\<dots> \<le> 1 / 2 * (193 / 65535)"
    using rb by (intro mult_right_mono) simp_all
  finally show ?thesis
    unfolding eq rng by simp
qed

text \<open>
  C10. For every undulation \<open>v\<close> between -107 m and 86 m, the two bytes that
  \<open>loadGeoidTexture\<close> writes for \<open>v\<close>, sampled at the exact texel and decoded by the
  shader with the uniforms \<open>geoidMin = GEOID_MIN\<close> and \<open>geoidRange = GEOID_RANGE\<close>, give
  a value within \<open>193 / 65535\<close> m of \<open>v\<close> (in fact within half of that), in exact
  arithmetic.
\<close>

theorem geoid_round_trip:
  assumes "- 107.0 \<le> v" and "v \<le> 86.0"
  shows "\<bar>geoidUndulation (u\<lparr>u_geoidMin := GEOID_MIN, u_geoidRange := GEOID_RANGE\<rparr>)
            (texel (encode_undulation v) wm h) - v\<bar> \<le> 193.0 / 65535
       \<and> \<bar>geoidUndulation (u\<lparr>u_geoidMin := GEOID_MIN, u_geoidRange := GEOID_RANGE\<rparr>)
            (texel (encode_undulation v) wm h) - v\<bar> \<le> 193.0 / 65535 / 2"
proof -
  have rng: "GEOID_RANGE = 193" by (simp add: GEOID_RANGE_def GEOID_MAX_def GEOID_MIN_def)
  from assms have "GEOID_MIN \<le> v" "v \<le> GEOID_MAX"
    by (simp_all add: GEOID_MIN_def GEOID_MAX_def)
  from encode_decode[OF this, of "u\<lparr>u_geoidMin := GEOID_MIN, u_geoidRange := GEOID_RANGE\<rparr>" wm h]
  have "\<bar>geoidUndulation (u\<lparr>u_geoidMin := GEOID_MIN, u_geoidRange := GEOID_RANGE\<rparr>)
            (texel (encode_undulation v) wm h) - v\<bar> \<le> 193 / 65535 / 2"
    unfolding rng by simp
  then show ?thesis by simp
qed

theorem geoid_round_trip_witness:
  "(- 107.0 :: real) \<le> 0 \<and> (0 :: real) \<le> 86.0 \<and>
   \<bar>geoidUndulation (the (floodMaterial demo_ready)) (texel (encode_undulation 0) 0 0) - 0\<bar>
     \<le> 193.0 / 65535"
proof -
  have "the (floodMaterial demo_ready) =
      (the (floodMaterial demo_ready))\<lparr>u_geoidMin := GEOID_MIN, u_geoidRange := GEOID_RANGE\<rparr>"
    by (simp add: demo_ready_def initFloodVisualization_def)
  with geoid_round_trip[of 0 "the (floodMaterial demo_ready)" 0 0] show ?thesis by simp
qed

section \<open>The flood state and the comparison band\<close>

text \<open>The animation touches neither the snapshots nor the two flood levels of the shader.\<close>

lemma animate_keeps_levels:
  "previousSnapshot (animate st) = previousSnapshot st"
  "currentSnapshot (animate st) = currentSnapshot st"
  "map_option u_seaLevelRise (floodMaterial (animate st)) = map_option u_seaLevelRise (floodMaterial st)"
  "map_option u_comparisonSLR (floodMaterial (animate st))
     = map_option u_comparisonSLR (floodMaterial st)"
  by (simp_all add: animate_def Let_def split: option.splits)

lemma setFloodLevel_record:
  "currentSnapshot (snd (setFloodLevel st slr r True now)) =
     (if slr \<le> 0 then None
      else Some \<lparr>seaLevelRise = slr, simulationResult = r, timestamp = now\<rparr>)"
  "previousSnapshot (snd (setFloodLevel st slr r True now)) =
     (if slr \<le> 0 then Some \<lparr>seaLevelRise = slr, simulationResult = r, timestamp = now\<rparr>
      else if currentSnapshot st \<noteq> None then currentSnapshot st
      else previousSnapshot st)"
  by (simp_all add: setFloodLevel_def clearFlood_def Let_def split: option.splits)

text \<open>
  C5, against the claim as stated. That the old current snapshot always becomes the
  previous one, and the supplied value the current one, fails twice. After a flood was set and cleared there
  is no current snapshot and the cleared one is held as previous; the next
  \<open>setFloodLevel\<close> keeps that previous snapshot instead of overwriting it. And a level of
  0 does not become the current snapshot.
\<close>

theorem setFloodLevel_history_counterexample:
  "currentSnapshot demo_cleared = None
   \<and> previousSnapshot demo_cleared = Some \<lparr>seaLevelRise = 1, simulationResult = (), timestamp = 10\<rparr>
   \<and> previousSnapshot (snd (setFloodLevel demo_cleared 2 () True 20))
        = Some \<lparr>seaLevelRise = 1, simulationResult = (), timestamp = 10\<rparr>
   \<and> previousSnapshot (snd (setFloodLevel demo_cleared 2 () True 20))
        \<noteq> currentSnapshot demo_cleared
   \<and> currentSnapshot (snd (setFloodLevel demo_ready 0 () True 10))
        \<noteq> Some \<lparr>seaLevelRise = 0, simulationResult = (), timestamp = 10\<rparr>"
  by (simp add: demo_cleared_def demo_ready_def setFloodLevel_record clearFlood_def)

text \<open>
  C5 (as the code has it). With recording enabled and a positive level, the supplied
  value becomes the current snapshot; a current snapshot that existed becomes the
  previous one, overwriting whatever was held; when there was no current snapshot the
  previous one is left as it is. With a level \<open>\<le> 0\<close> the supplied value is recorded
  and at once demoted by \<open>clearFlood\<close>: it is the previous snapshot and there is no
  current one. Nothing but these two slots is kept.
\<close>

theorem setFloodLevel_history:
  "(0 < slr \<longrightarrow>
      currentSnapshot (snd (setFloodLevel st slr r True now))
        = Some \<lparr>seaLevelRise = slr, simulationResult = r, timestamp = now\<rparr>
      \<and> (\<forall>c. currentSnapshot st = Some c \<longrightarrow>
            previousSnapshot (snd (setFloodLevel st slr r True now)) = Some c)
      \<and> (currentSnapshot st = None \<longrightarrow>
            previousSnapshot (snd (setFloodLevel st slr r True now)) = previousSnapshot st))
   \<and> (slr \<le> 0 \<longrightarrow>
      currentSnapshot (snd (setFloodLevel st slr r True now)) = None
      \<and> previousSnapshot (snd (setFloodLevel st slr r True now))
           = Some \<lparr>seaLevelRise = slr, simulationResult = r, timestamp = now\<rparr>)"
  by (simp add: setFloodLevel_record)

theorem setFloodLevel_history_witness:
  "(0::real) < 2
   \<and> currentSnapshot (snd (setFloodLevel demo_ready 1 () True 10))
       = Some \<lparr>seaLevelRise = 1, simulationResult = (), timestamp = 10\<rparr>
   \<and> currentSnapshot demo_two_levels
       = Some \<lparr>seaLevelRise = 2, simulationResult = (), timestamp = 20\<rparr>
   \<and> previousSnapshot demo_two_levels
       = Some \<lparr>seaLevelRise = 1, simulationResult = (), timestamp = 10\<rparr>
   \<and> (0::real) \<le> 0
   \<and> currentSnapshot (snd (setFloodLevel demo_two_levels 0 () True 30)) = None
   \<and> previousSnapshot (snd (setFloodLevel demo_two_levels 0 () True 30))
       = Some \<lparr>seaLevelRise = 0, simulationResult = (), timestamp = 30\<rparr>"
proof -
  have c: "currentSnapshot (snd (setFloodLevel demo_ready 1 () True 10))
       = Some \<lparr>seaLevelRise = 1, simulationResult = (), timestamp = 10\<rparr>"
    by (simp add: setFloodLevel_def demo_ready_def initFloodVisualization_def Let_def)
  from setFloodLevel_history[of 2 "snd (setFloodLevel demo_ready 1 () True 10)" "()" 20] c
    setFloodLevel_history[of 0 demo_two_levels "()" 30]
  show ?thesis unfolding demo_two_levels_def by simp
qed

lemma colors_differ: "flood_color \<noteq> comparison_color" "(0, 0, 0) \<noteq> comparison_color"
  by (simp_all add: flood_color_def comparison_color_def)

lemma band_iff:
  "isComparisonBand u frag \<longleftrightarrow>
     waterMask frag \<le> 0.5 \<and> 0 < u_comparisonSLR u \<and>
     min (geoidUndulation u frag + u_seaLevelRise u) (geoidUndulation u frag + u_comparisonSLR u)
       \<le> height frag \<and>
     height frag
       < max (geoidUndulation u frag + u_seaLevelRise u) (geoidUndulation u frag + u_comparisonSLR u)"
  unfolding isComparisonBand_def FLOOD_SHADER_GEOID_def Let_def
  using colors_differ by (auto split: if_splits)

lemma band_alpha: "isComparisonBand u frag \<Longrightarrow> alpha (FLOOD_SHADER_GEOID u frag) = 0.5"
  unfolding isComparisonBand_def FLOOD_SHADER_GEOID_def Let_def
  using colors_differ by (auto split: if_splits)

lemma showComparison_uniform:
  assumes "showComparison st = (True, st')" and "useGeoidTexture st"
    and "previousSnapshot st = Some p" and "floodMaterial st' = Some u"
  shows "u_comparisonSLR u = seaLevelRise p"
proof (cases "currentSnapshot st")
  case None
  with assms(1,3) show ?thesis by (simp add: showComparison_def)
next
  case cur: (Some c)
  show ?thesis
  proof (cases "floodMaterial st")
    case None
    with assms(1,3) cur show ?thesis by (simp add: showComparison_def)
  next
    case (Some u0)
    with assms(1,2,3) cur
    have "st' = st\<lparr>floodMaterial := Some (u0\<lparr>u_comparisonSLR := seaLevelRise p\<rparr>)\<rparr>"
      by (simp add: showComparison_def)
    with assms(4) have "u = u0\<lparr>u_comparisonSLR := seaLevelRise p\<rparr>" by simp
    then show ?thesis by simp
  qed
qed

text \<open>
  C6 (as the code has it). After \<open>showComparison\<close> succeeded with the geoid shader, and
  with the \<open>seaLevelRise\<close> uniform equal to the current snapshot's level (as it is after a
  recording \<open>setFloodLevel\<close>), a fragment with terrain height \<open>h\<close> and decoded geoid
  undulation \<open>g\<close> is in the comparison band iff it is a land fragment (water mask at
  most 0.5), the previous snapshot's level is positive, and \<open>h\<close> lies in
  \<open>[min(g + current, g + previous), max(g + current, g + previous))\<close>. Such a fragment
  gets opacity 0.5. If the two levels are equal the band is empty.
\<close>

theorem comparison_band:
  assumes "showComparison st = (True, st')" and "useGeoidTexture st"
    and "previousSnapshot st = Some p" and "currentSnapshot st = Some c"
    and "floodMaterial st' = Some u" and "u_seaLevelRise u = seaLevelRise c"
  shows "(isComparisonBand u frag \<longleftrightarrow>
            waterMask frag \<le> 0.5 \<and> 0 < seaLevelRise p \<and>
            min (geoidUndulation u frag + seaLevelRise c) (geoidUndulation u frag + seaLevelRise p)
              \<le> height frag \<and>
            height frag
              < max (geoidUndulation u frag + seaLevelRise c)
                    (geoidUndulation u frag + seaLevelRise p))
       \<and> (isComparisonBand u frag \<longrightarrow> alpha (FLOOD_SHADER_GEOID u frag) = 0.5)
       \<and> (seaLevelRise p = seaLevelRise c \<longrightarrow> \<not> isComparisonBand u frag)"
proof -
  have cmp: "u_comparisonSLR u = seaLevelRise p"
    using assms(1,2,3,5) by (rule showComparison_uniform)
  have a: "isComparisonBand u frag \<longleftrightarrow>
            waterMask frag \<le> 0.5 \<and> 0 < seaLevelRise p \<and>
            min (geoidUndulation u frag + seaLevelRise c) (geoidUndulation u frag + seaLevelRise p)
              \<le> height frag \<and>
            height frag
              < max (geoidUndulation u frag + seaLevelRise c)
                    (geoidUndulation u frag + seaLevelRise p)"
    unfolding band_iff cmp assms(6) ..
  have b: "isComparisonBand u frag \<longrightarrow> alpha (FLOOD_SHADER_GEOID u frag) = 0.5"
    using band_alpha by blast
  have c: "seaLevelRise p = seaLevelRise c \<longrightarrow> \<not> isComparisonBand u frag"
    unfolding a by simp
  from a b c show ?thesis by blast
qed

lemma demo_two_levels_eval:
  "previousSnapshot demo_two_levels = Some \<lparr>seaLevelRise = 1, simulationResult = (), timestamp = 10\<rparr>"
  "currentSnapshot demo_two_levels = Some \<lparr>seaLevelRise = 2, simulationResult = (), timestamp = 20\<rparr>"
  "useGeoidTexture demo_two_levels"
  "floodMaterial demo_two_levels =
     Some \<lparr>u_seaLevelRise = 2, u_comparisonSLR = 0, u_waterAlpha = 0,
           u_geoidMin = - 107, u_geoidRange = 193, u_floodLevel = 0, u_comparisonLevel = 0\<rparr>"
  by (simp_all add: demo_two_levels_def demo_ready_def initial_state_def
      initFloodVisualization_def setFloodLevel_def Let_def GEOID_MIN_def GEOID_RANGE_def GEOID_MAX_def)

lemma demo_one_then_two_eval:
  "showComparison demo_two_levels = (True, demo_one_then_two)"
  "floodMaterial demo_one_then_two =
     Some \<lparr>u_seaLevelRise = 2, u_comparisonSLR = 1, u_waterAlpha = 0,
           u_geoidMin = - 107, u_geoidRange = 193, u_floodLevel = 0, u_comparisonLevel = 0\<rparr>"
  "previousSnapshot demo_one_then_two = Some \<lparr>seaLevelRise = 1, simulationResult = (), timestamp = 10\<rparr>"
  "currentSnapshot demo_one_then_two = Some \<lparr>seaLevelRise = 2, simulationResult = (), timestamp = 20\<rparr>"
  unfolding demo_one_then_two_def demo_two_levels_def[symmetric]
  by (simp_all add: showComparison_def demo_two_levels_eval)

theorem comparison_band_witness:
  "showComparison demo_two_levels = (True, demo_one_then_two) \<and> useGeoidTexture demo_two_levels
   \<and> previousSnapshot demo_two_levels
        = Some \<lparr>seaLevelRise = 1, simulationResult = (), timestamp = 10\<rparr>
   \<and> currentSnapshot demo_two_levels
        = Some \<lparr>seaLevelRise = 2, simulationResult = (), timestamp = 20\<rparr>
   \<and> isComparisonBand (the (floodMaterial demo_one_then_two)) (texel (0, 0) 0 (- 105.5))
   \<and> \<not> isComparisonBand (the (floodMaterial demo_one_then_two)) (texel (0, 0) 0 (- 105))
   \<and> alpha (FLOOD_SHADER_GEOID (the (floodMaterial demo_one_then_two)) (texel (0, 0) 0 (- 105.5)))
        = 0.5"
proof -
  let ?u = "\<lparr>u_seaLevelRise = 2, u_comparisonSLR = 1, u_waterAlpha = 0,
           u_geoidMin = - 107, u_geoidRange = 193, u_floodLevel = 0, u_comparisonLevel = 0\<rparr>"
  have g: "geoidUndulation ?u (texel (0, 0) 0 h) = - 107" for h
    by (simp add: geoidUndulation_def texel_def)
  note cb = comparison_band[OF demo_one_then_two_eval(1) demo_two_levels_eval(3)
      demo_two_levels_eval(1) demo_two_levels_eval(2) demo_one_then_two_eval(2), simplified]
  have "isComparisonBand ?u (texel (0, 0) 0 (- 105.5))"
    using cb[of "texel (0, 0) 0 (- 105.5)"] by (simp add: g) (simp add: texel_def)
  moreover have "\<not> isComparisonBand ?u (texel (0, 0) 0 (- 105))"
    using cb[of "texel (0, 0) 0 (- 105)"] by (simp add: g) (simp add: texel_def)
  moreover have "alpha (FLOOD_SHADER_GEOID ?u (texel (0, 0) 0 (- 105.5))) = 0.5"
    using cb[of "texel (0, 0) 0 (- 105.5)"] by (simp add: g) (simp add: texel_def)
  ultimately show ?thesis
    by (simp add: demo_one_then_two_eval demo_two_levels_eval)
qed

lemma demo_zero_then_two_eval:
  "floodMaterial demo_zero_then_two =
     Some \<lparr>u_seaLevelRise = 2, u_comparisonSLR = 0, u_waterAlpha = 0,
           u_geoidMin = - 107, u_geoidRange = 193, u_floodLevel = 0, u_comparisonLevel = 0\<rparr>"
  "previousSnapshot demo_zero_then_two = Some \<lparr>seaLevelRise = 0, simulationResult = (), timestamp = 10\<rparr>"
  "currentSnapshot demo_zero_then_two = Some \<lparr>seaLevelRise = 2, simulationResult = (), timestamp = 20\<rparr>"
  "fst (showComparison
       (snd (setFloodLevel (snd (setFloodLevel demo_ready 0 () True 10)) 2 () True 20)))"
  by (simp_all add: demo_zero_then_two_def demo_ready_def initial_state_def showComparison_def
      initFloodVisualization_def setFloodLevel_def clearFlood_def clear_comparison_def Let_def
      GEOID_MIN_def GEOID_RANGE_def GEOID_MAX_def)

text \<open>
  C6, against the claim as stated. Two fragments whose height lies in the interval of
  the claim and which are not in the band: an ocean fragment (water mask 1) with the levels 1 m and 2 m, and a land
  fragment when the previous snapshot's level is 0 m and the current one's is 2 m.
\<close>

theorem comparison_band_counterexample:
  "previousSnapshot demo_one_then_two
      = Some \<lparr>seaLevelRise = 1, simulationResult = (), timestamp = 10\<rparr>
   \<and> currentSnapshot demo_one_then_two
      = Some \<lparr>seaLevelRise = 2, simulationResult = (), timestamp = 20\<rparr>
   \<and> geoidUndulation (the (floodMaterial demo_one_then_two)) (texel (0, 0) 1 (- 105.5)) = - 107
   \<and> min (- 107 + 2) (- 107 + 1) \<le> (- 105.5 :: real)
   \<and> (- 105.5 :: real) < max (- 107 + 2) (- 107 + 1)
   \<and> \<not> isComparisonBand (the (floodMaterial demo_one_then_two)) (texel (0, 0) 1 (- 105.5))
   \<and> previousSnapshot demo_zero_then_two
      = Some \<lparr>seaLevelRise = 0, simulationResult = (), timestamp = 10\<rparr>
   \<and> currentSnapshot demo_zero_then_two
      = Some \<lparr>seaLevelRise = 2, simulationResult = (), timestamp = 20\<rparr>
   \<and> geoidUndulation (the (floodMaterial demo_zero_then_two)) (texel (0, 0) 0 (- 106)) = - 107
   \<and> min (- 107 + 2) (- 107 + 0) \<le> (- 106 :: real)
   \<and> (- 106 :: real) < max (- 107 + 2) (- 107 + 0)
   \<and> \<not> isComparisonBand (the (floodMaterial demo_zero_then_two)) (texel (0, 0) 0 (- 106))"
  by (simp add: demo_one_then_two_eval demo_zero_then_two_eval band_iff)
     (simp add: geoidUndulation_def texel_def)

end
